theory Spec2Isabelle
  imports Complex_Main
begin

section \<open>WHO Growth Reference 2007 z-scores: the model of \<^verbatim>\<open>who_zscore.py\<close>\<close>

text \<open>
  The module computes BMI-for-age and height-for-age z-scores by the LMS method. The
  embedding follows \<^verbatim>\<open>_lookup_lms\<close> and \<^verbatim>\<open>calc_who_zscore\<close> statement by statement.

  Numbers. A finite IEEE double is idealised as a real number: no rounding error, no
  overflow, no signed zero. The arguments \<^verbatim>\<open>measurement\<close>, \<^verbatim>\<open>age_months\<close> and
  \<^verbatim>\<open>sex\<close> are either missing (\<^verbatim>\<open>None\<close>, \<^verbatim>\<open>NaN\<close>: whatever \<^verbatim>\<open>pd.isna\<close> accepts) or
  finite numbers, so each is a \<open>real option\<close>. The entries of the two reference tables
  are finite numbers as well. What the code can still produce beyond the reals is
  kept: an exception (\<open>Inl\<close>), a complex number (a negative float raised to a
  fractional power), and the non-finite values of numpy (\<^verbatim>\<open>np.log\<close> of a negative
  number, a numpy division by zero).
\<close>

subsection \<open>Values and errors\<close>

datatype py_error = ZeroDivisionError | TypeError

text \<open>A float as the caller sees it: finite, infinite, or not a number.\<close>

datatype pyfloat = Fin real | PInf | NInf | NaN

text \<open>A value of the pure Python arithmetic: a (finite) float or a complex number.\<close>

datatype pynum = PyFloat real | PyComplex complex

definition pbind :: "'e + 'a \<Rightarrow> ('a \<Rightarrow> 'e + 'b) \<Rightarrow> 'e + 'b" where
  "pbind r f = (case r of Inl e \<Rightarrow> Inl e | Inr v \<Rightarrow> f v)"

subsection \<open>Rounding and truncation\<close>

text \<open>\<^verbatim>\<open>round(x)\<close>: the nearest integer, a tie going to the even neighbour.\<close>

definition py_round :: "real \<Rightarrow> int" where
  "py_round x =
     (let f = \<lfloor>x\<rfloor>; d = x - of_int f
      in if d < 1 / 2 then f
         else if 1 / 2 < d then f + 1
         else if even f then f else f + 1)"

text \<open>\<^verbatim>\<open>int(x)\<close>: truncation toward zero.\<close>

definition py_int :: "real \<Rightarrow> int" where
  "py_int x = (if 0 \<le> x then \<lfloor>x\<rfloor> else \<lceil>x\<rceil>)"

text \<open>\<^verbatim>\<open>round(z, 2)\<close> on a finite float.\<close>

definition round2 :: "real \<Rightarrow> real" where
  "round2 z = of_int (py_round (z * 100)) / 100"

subsection \<open>The reference tables and the lookup\<close>

text \<open>
  The two CSV files are not part of the sources: the tables
  \<^verbatim>\<open>_bfa_table\<close> and \<^verbatim>\<open>_hfa_table\<close>, indexed by \<^verbatim>\<open>(sex, age)\<close>, are parameters.
  A key that is absent is the \<^verbatim>\<open>KeyError\<close> of \<^verbatim>\<open>table.loc\<close>, which the lookup
  catches.
\<close>

type_synonym lms_table = "int \<times> int \<Rightarrow> (real \<times> real \<times> real) option"

definition lookup_lms ::
  "lms_table \<Rightarrow> lms_table \<Rightarrow> real \<Rightarrow> real \<Rightarrow> string \<Rightarrow> (real \<times> real \<times> real) option" where
  "lookup_lms bfa_table hfa_table sex age_months indicator =
     (let table = (if indicator = ''bfa'' then bfa_table else hfa_table);
          age_int = py_round age_months
      in if age_int < 61 \<or> 228 < age_int then None
         else
           let sex_int = py_int sex
           in if sex_int \<noteq> 1 \<and> sex_int \<noteq> 2 then None
              else table (sex_int, age_int))"

subsection \<open>Python float arithmetic (the branch \<open>L \<noteq> 0\<close>)\<close>

text \<open>\<^verbatim>\<open>a / b\<close> on floats raises on a zero divisor.\<close>

definition py_truediv :: "real \<Rightarrow> real \<Rightarrow> py_error + real" where
  "py_truediv a b = (if b = 0 then Inl ZeroDivisionError else Inr (a / b))"

text \<open>
  \<^verbatim>\<open>x ** y\<close> on floats: zero to a negative power raises; a negative base with a
  fractional exponent gives the complex principal value
  \<open>\<bar>x\<bar>\<^sup>y (cos \<pi>y + i sin \<pi>y)\<close>.
\<close>

definition py_pow :: "real \<Rightarrow> real \<Rightarrow> py_error + pynum" where
  "py_pow x y =
     (if 0 < x then Inr (PyFloat (x powr y))
      else if x = 0 then
        (if y < 0 then Inl ZeroDivisionError
         else if y = 0 then Inr (PyFloat 1) else Inr (PyFloat 0))
      else if y = of_int \<lfloor>y\<rfloor> then Inr (PyFloat (x powi \<lfloor>y\<rfloor>))
      else Inr (PyComplex (of_real (\<bar>x\<bar> powr y) * cis (pi * y))))"

fun to_complex :: "pynum \<Rightarrow> complex" where
  "to_complex (PyFloat a) = of_real a"
| "to_complex (PyComplex c) = c"

fun pynum_add :: "pynum \<Rightarrow> pynum \<Rightarrow> pynum" where
  "pynum_add (PyFloat a) (PyFloat b) = PyFloat (a + b)"
| "pynum_add u v = PyComplex (to_complex u + to_complex v)"

fun pynum_sub :: "pynum \<Rightarrow> pynum \<Rightarrow> pynum" where
  "pynum_sub (PyFloat a) (PyFloat b) = PyFloat (a - b)"
| "pynum_sub u v = PyComplex (to_complex u - to_complex v)"

fun pynum_mul :: "pynum \<Rightarrow> pynum \<Rightarrow> pynum" where
  "pynum_mul (PyFloat a) (PyFloat b) = PyFloat (a * b)"
| "pynum_mul u v = PyComplex (to_complex u * to_complex v)"

fun pynum_truediv :: "pynum \<Rightarrow> pynum \<Rightarrow> py_error + pynum" where
  "pynum_truediv (PyFloat a) (PyFloat b) =
     (if b = 0 then Inl ZeroDivisionError else Inr (PyFloat (a / b)))"
| "pynum_truediv u v =
     (if to_complex v = 0 then Inl ZeroDivisionError
      else Inr (PyComplex (to_complex u / to_complex v)))"

text \<open>\<^verbatim>\<open>abs(z)\<close>: the modulus, for a complex number.\<close>

fun pynum_abs :: "pynum \<Rightarrow> real" where
  "pynum_abs (PyFloat a) = \<bar>a\<bar>"
| "pynum_abs (PyComplex c) = cmod c"

text \<open>Ordering a complex number against a float is a \<^verbatim>\<open>TypeError\<close>.\<close>

fun pynum_gt :: "pynum \<Rightarrow> real \<Rightarrow> py_error + bool" where
  "pynum_gt (PyFloat a) b = Inr (b < a)"
| "pynum_gt (PyComplex c) b = Inl TypeError"

fun pynum_lt :: "pynum \<Rightarrow> real \<Rightarrow> py_error + bool" where
  "pynum_lt (PyFloat a) b = Inr (a < b)"
| "pynum_lt (PyComplex c) b = Inl TypeError"

text \<open>\<^verbatim>\<open>round(z, 2)\<close>: complex numbers have no \<^verbatim>\<open>__round__\<close>.\<close>

fun py_round2 :: "pynum \<Rightarrow> py_error + pyfloat" where
  "py_round2 (PyFloat a) = Inr (Fin (round2 a))"
| "py_round2 (PyComplex c) = Inl TypeError"

text \<open>
  One cutoff \<^verbatim>\<open>M * (1 + L * S * k) ** (1 / L)\<close>. \<open>L \<noteq> 0\<close> in this branch, so
  \<^verbatim>\<open>1 / L\<close> does not raise.
\<close>

definition sd_py :: "real \<Rightarrow> real \<Rightarrow> real \<Rightarrow> real \<Rightarrow> py_error + pynum" where
  "sd_py L M S k =
     pbind (py_pow (1 + L * S * k) (1 / L)) (\<lambda>p. Inr (pynum_mul (PyFloat M) p))"

text \<open>The body of \<^verbatim>\<open>if indicator == "bfa" and abs(z) > 3\<close>, all four cutoffs first.\<close>

definition restricted_py :: "real \<Rightarrow> real \<Rightarrow> real \<Rightarrow> real \<Rightarrow> pynum \<Rightarrow> py_error + pynum" where
  "restricted_py L M S X z =
     pbind (sd_py L M S 3) (\<lambda>SD3pos.
     pbind (sd_py L M S (- 3)) (\<lambda>SD3neg.
     pbind (sd_py L M S 2) (\<lambda>SD2pos.
     pbind (sd_py L M S (- 2)) (\<lambda>SD2neg.
     pbind (pynum_gt z 3) (\<lambda>above.
       if above then
         (let SD23pos = pynum_sub SD3pos SD2pos
          in pbind (pynum_truediv (pynum_sub (PyFloat X) SD3pos) SD23pos)
               (\<lambda>q. Inr (pynum_add (PyFloat 3) q)))
       else
         pbind (pynum_lt z (- 3)) (\<lambda>below.
           if below then
             (let SD23neg = pynum_sub SD2neg SD3neg
              in pbind (pynum_truediv (pynum_sub (PyFloat X) SD3neg) SD23neg)
                   (\<lambda>q. Inr (pynum_add (PyFloat (- 3)) q)))
           else Inr z))))))"

text \<open>\<^verbatim>\<open>calc_who_zscore\<close> from \<^verbatim>\<open>X = float(measurement)\<close> on, when \<open>L \<noteq> 0\<close>.\<close>

definition zscore_py :: "real \<Rightarrow> real \<Rightarrow> real \<Rightarrow> real \<Rightarrow> string \<Rightarrow> py_error + pyfloat" where
  "zscore_py L M S X indicator =
     pbind (py_truediv X M) (\<lambda>r.
     pbind (py_pow r L) (\<lambda>p.
     pbind (pynum_truediv (pynum_sub p (PyFloat 1)) (PyFloat (L * S))) (\<lambda>z.
     pbind (if indicator = ''bfa'' \<and> 3 < pynum_abs z
            then restricted_py L M S X z else Inr z)
       py_round2)))"

subsection \<open>numpy arithmetic (the branch \<open>L = 0\<close>)\<close>

text \<open>
  \<^verbatim>\<open>np.log\<close> and \<^verbatim>\<open>np.exp\<close> return \<^verbatim>\<open>np.float64\<close>, whose arithmetic warns instead of
  raising: the logarithm of a negative number is \<open>NaN\<close>, a division by zero is an
  infinity, or \<open>NaN\<close> for \<open>0 / 0\<close>.
\<close>

definition np_log :: "real \<Rightarrow> pyfloat" where
  "np_log x = (if 0 < x then Fin (ln x) else if x = 0 then NInf else NaN)"

text \<open>Division of a \<^verbatim>\<open>np.float64\<close> by a finite float.\<close>

fun np_truediv :: "pyfloat \<Rightarrow> real \<Rightarrow> pyfloat" where
  "np_truediv (Fin a) b =
     (if b \<noteq> 0 then Fin (a / b)
      else if 0 < a then PInf else if a < 0 then NInf else NaN)"
| "np_truediv PInf b = (if 0 \<le> b then PInf else NInf)"
| "np_truediv NInf b = (if 0 \<le> b then NInf else PInf)"
| "np_truediv NaN b = NaN"

text \<open>A finite float plus a \<^verbatim>\<open>np.float64\<close>.\<close>

fun np_add :: "real \<Rightarrow> pyfloat \<Rightarrow> pyfloat" where
  "np_add a (Fin b) = Fin (a + b)"
| "np_add a v = v"

text \<open>\<^verbatim>\<open>abs(z) > c\<close>, \<^verbatim>\<open>z > c\<close> and \<^verbatim>\<open>z < c\<close>: every comparison with \<open>NaN\<close> is false.\<close>

fun np_abs_gt :: "pyfloat \<Rightarrow> real \<Rightarrow> bool" where
  "np_abs_gt (Fin a) c = (c < \<bar>a\<bar>)"
| "np_abs_gt PInf c = True"
| "np_abs_gt NInf c = True"
| "np_abs_gt NaN c = False"

fun np_gt :: "pyfloat \<Rightarrow> real \<Rightarrow> bool" where
  "np_gt (Fin a) c = (c < a)"
| "np_gt PInf c = True"
| "np_gt NInf c = False"
| "np_gt NaN c = False"

fun np_lt :: "pyfloat \<Rightarrow> real \<Rightarrow> bool" where
  "np_lt (Fin a) c = (a < c)"
| "np_lt PInf c = False"
| "np_lt NInf c = True"
| "np_lt NaN c = False"

text \<open>\<^verbatim>\<open>round(z, 2)\<close> on a \<^verbatim>\<open>np.float64\<close> keeps an infinity and \<open>NaN\<close>.\<close>

fun np_round2 :: "pyfloat \<Rightarrow> pyfloat" where
  "np_round2 (Fin a) = Fin (round2 a)"
| "np_round2 v = v"

text \<open>
  The cutoffs \<^verbatim>\<open>M * np.exp(S * k)\<close> are finite, and so are \<^verbatim>\<open>X - SD3pos\<close>,
  \<^verbatim>\<open>SD3pos - SD2pos\<close> and \<^verbatim>\<open>SD2neg - SD3neg\<close>.
\<close>

definition restricted_np :: "real \<Rightarrow> real \<Rightarrow> real \<Rightarrow> pyfloat \<Rightarrow> pyfloat" where
  "restricted_np M S X z =
     (let SD3pos = M * exp (S * 3);
          SD3neg = M * exp (S * (- 3));
          SD2pos = M * exp (S * 2);
          SD2neg = M * exp (S * (- 2))
      in if np_gt z 3 then
           (let SD23pos = SD3pos - SD2pos
            in np_add 3 (np_truediv (Fin (X - SD3pos)) SD23pos))
         else if np_lt z (- 3) then
           (let SD23neg = SD2neg - SD3neg
            in np_add (- 3) (np_truediv (Fin (X - SD3neg)) SD23neg))
         else z)"

text \<open>
  \<^verbatim>\<open>calc_who_zscore\<close> from \<^verbatim>\<open>X = float(measurement)\<close> on, when \<open>L = 0\<close>. Only
  \<^verbatim>\<open>X / M\<close>, a division of two Python floats, can raise.
\<close>

definition zscore_np :: "real \<Rightarrow> real \<Rightarrow> real \<Rightarrow> string \<Rightarrow> py_error + pyfloat" where
  "zscore_np M S X indicator =
     pbind (py_truediv X M) (\<lambda>r.
       let z = np_truediv (np_log r) S
       in Inr (np_round2
            (if indicator = ''bfa'' \<and> np_abs_gt z 3 then restricted_np M S X z else z)))"

subsection \<open>The entry point\<close>

text \<open>
  \<^verbatim>\<open>calc_who_zscore(measurement, age_months, sex, indicator)\<close>. The sentinel
  \<^verbatim>\<open>np.nan\<close> is \<open>Inr NaN\<close>. The operands are Python floats when \<open>L \<noteq> 0\<close> and
  \<^verbatim>\<open>np.float64\<close> when \<open>L = 0\<close>; the two differ on a zero divisor, so the test
  \<^verbatim>\<open>L != 0\<close>, which the source makes twice on the same \<open>L\<close>, is made once here.
\<close>

fun calc_who_zscore ::
  "lms_table \<Rightarrow> lms_table \<Rightarrow> real option \<Rightarrow> real option \<Rightarrow> real option \<Rightarrow> string
     \<Rightarrow> py_error + pyfloat" where
  "calc_who_zscore bfa_table hfa_table (Some measurement) (Some age_months) (Some sex) indicator =
     (if measurement \<le> 0 then Inr NaN
      else
        case lookup_lms bfa_table hfa_table sex age_months indicator of
          None \<Rightarrow> Inr NaN
        | Some (L, M, S) \<Rightarrow>
            (let X = measurement
             in if L \<noteq> 0 then zscore_py L M S X indicator
                else zscore_np M S X indicator))"
| "calc_who_zscore bfa_table hfa_table measurement age_months sex indicator = Inr NaN"

subsection \<open>The formulas of the reference, over the reals\<close>

text \<open>
  The closed forms that the module's docstring and the specification write down, as
  functions on the reals. They are what the results of \<open>calc_who_zscore\<close> are compared
  with: the LMS transform, the cutoff at \<open>k\<close> standard deviations, and the z-score with
  the restricted approach beyond three standard deviations.
\<close>

definition lms_formula :: "real \<Rightarrow> real \<Rightarrow> real \<Rightarrow> real \<Rightarrow> real" where
  "lms_formula L M S X =
     (if L \<noteq> 0 then ((X / M) powr L - 1) / (L * S) else ln (X / M) / S)"

definition sd_cutoff :: "real \<Rightarrow> real \<Rightarrow> real \<Rightarrow> real \<Rightarrow> real" where
  "sd_cutoff L M S k =
     (if L \<noteq> 0 then M * (1 + L * S * k) powr (1 / L) else M * exp (S * k))"

definition who_z :: "string \<Rightarrow> real \<Rightarrow> real \<Rightarrow> real \<Rightarrow> real \<Rightarrow> real" where
  "who_z indicator L M S X =
     (let z = lms_formula L M S X
      in if indicator = ''bfa'' \<and> 3 < \<bar>z\<bar> then
           (if 3 < z then
              3 + (X - sd_cutoff L M S 3) / (sd_cutoff L M S 3 - sd_cutoff L M S 2)
            else
              - 3 + (X - sd_cutoff L M S (- 3))
                      / (sd_cutoff L M S (- 2) - sd_cutoff L M S (- 3)))
         else z)"


subsection \<open>Small tables for concrete runs\<close>

text \<open>
  Three rows in the shape of the height-for-age reference (whose \<open>L\<close> is 1), one row in
  the shape of the BMI-for-age reference (negative \<open>L\<close>), and one malformed row with a
  zero median.
\<close>

definition bfa_example :: lms_table where
  "bfa_example = [(1, 100) \<mapsto> (- 1, 16, 1 / 10)]"

definition hfa_example :: lms_table where
  "hfa_example =
     [(1, 61) \<mapsto> (1, 110, 1 / 25),
      (1, 100) \<mapsto> (1, 128, 1 / 20),
      (2, 228) \<mapsto> (1, 163, 1 / 25)]"

definition malformed_example :: lms_table where
  "malformed_example = [(1, 100) \<mapsto> (1, 0, 1 / 10)]"

section \<open>Properties\<close>

subsection \<open>Rounding\<close>


lemma py_round_half: "py_round (of_int n + 1 / 2) = (if even n then n else n + 1)"
proof -
  have "\<lfloor>of_int n + (1 / 2 :: real)\<rfloor> = n" by linarith
  then show ?thesis by (simp add: py_round_def Let_def)
qed

lemma py_round_of_int: "py_round (of_int n) = n"
  by (simp add: py_round_def Let_def)

lemma py_round_numeral: "py_round (numeral n) = numeral n"
  using py_round_of_int [of "numeral n"] by simp

lemma py_int_of_int: "py_int (of_int n) = n"
  by (simp add: py_int_def)


lemma round2_zero: "round2 0 = 0"
  by (simp add: round2_def py_round_def)


lemma py_round_nearest:
  assumes "\<bar>a - of_int n\<bar> < 1 / 2"
  shows "py_round a = n"
proof (cases "of_int n \<le> a")
  case True
  then have "\<lfloor>a\<rfloor> = n" using assms by linarith
  then show ?thesis using assms True by (simp add: py_round_def Let_def)
next
  case False
  then have f: "\<lfloor>a\<rfloor> = n - 1" using assms by linarith
  have "1 / 2 < a - of_int (n - 1)" using assms False by simp
  then show ?thesis using f by (simp add: py_round_def Let_def)
qed



subsection \<open>The lookup\<close>

lemma lookup_out_of_window:
  "py_round a < 61 \<or> 228 < py_round a \<Longrightarrow> lookup_lms bfa hfa s a indicator = None"
  by (auto simp: lookup_lms_def Let_def)

lemma lookup_bad_sex:
  "py_int s \<noteq> 1 \<Longrightarrow> py_int s \<noteq> 2 \<Longrightarrow> lookup_lms bfa hfa s a indicator = None"
  by (simp add: lookup_lms_def Let_def)

lemma lookup_in_window:
  assumes "61 \<le> py_round a" "py_round a \<le> 228" "py_int s = 1 \<or> py_int s = 2"
  shows "lookup_lms bfa hfa s a indicator =
     (if indicator = ''bfa'' then bfa else hfa) (py_int s, py_round a)"
  using assms by (auto simp: lookup_lms_def Let_def)

lemma lookup_same_round:
  "py_round a = py_round a' \<Longrightarrow>
     lookup_lms bfa hfa s a indicator = lookup_lms bfa hfa s a' indicator"
  by (simp add: lookup_lms_def)

lemma lookup_not_bfa:
  "indicator \<noteq> ''bfa'' \<Longrightarrow>
     lookup_lms bfa hfa s a indicator = lookup_lms bfa' hfa s a ''hfa''"
  by (simp add: lookup_lms_def)

lemma lookup_at_int:
  "lookup_lms bfa hfa s (of_int n) indicator =
     (if n < 61 \<or> 228 < n \<or> (py_int s \<noteq> 1 \<and> py_int s \<noteq> 2) then None
      else (if indicator = ''bfa'' then bfa else hfa) (py_int s, n))"
  by (simp add: lookup_lms_def Let_def py_round_of_int)

subsection \<open>Early returns\<close>

lemma calc_missing:
  "m = None \<or> a = None \<or> s = None \<Longrightarrow> calc_who_zscore bfa hfa m a s indicator = Inr NaN"
  by (cases m; cases a; cases s) simp_all

lemma calc_nonpositive:
  "x \<le> 0 \<Longrightarrow> calc_who_zscore bfa hfa (Some x) a s indicator = Inr NaN"
  by (cases a; cases s) simp_all

lemma calc_lookup_failed:
  assumes "\<And>s. lookup_lms bfa hfa s a indicator = None"
  shows "calc_who_zscore bfa hfa m (Some a) sx indicator = Inr NaN"
  using assms by (cases m; cases sx) simp_all

lemma calc_bad_sex:
  assumes "py_int s \<noteq> 1" "py_int s \<noteq> 2"
  shows "calc_who_zscore bfa hfa m a (Some s) indicator = Inr NaN"
  using assms by (cases m; cases a) (simp_all add: lookup_bad_sex)

lemma calc_same_round:
  assumes "py_round a = py_round a'"
  shows "calc_who_zscore bfa hfa m (Some a) sx indicator =
     calc_who_zscore bfa hfa m (Some a') sx indicator"
  using assms by (cases m; cases sx) (simp_all add: lookup_same_round [of a a'])

subsection \<open>The arithmetic on well-formed rows\<close>

lemma zscore_py_raw:
  assumes "0 < X" "0 < M" "S \<noteq> 0" "L \<noteq> 0"
  shows "zscore_py L M S X indicator =
     pbind (if indicator = ''bfa'' \<and> 3 < \<bar>lms_formula L M S X\<bar>
            then restricted_py L M S X (PyFloat (lms_formula L M S X))
            else Inr (PyFloat (lms_formula L M S X))) py_round2"
  using assms by (simp add: zscore_py_def py_truediv_def py_pow_def pbind_def lms_formula_def)

lemma zscore_np_raw:
  assumes "0 < X" "0 < M" "S \<noteq> 0"
  shows "zscore_np M S X indicator =
     Inr (np_round2 (if indicator = ''bfa'' \<and> 3 < \<bar>lms_formula 0 M S X\<bar>
            then restricted_np M S X (Fin (lms_formula 0 M S X))
            else Fin (lms_formula 0 M S X)))"
  using assms
  by (simp add: zscore_np_def py_truediv_def np_log_def pbind_def lms_formula_def Let_def)

lemma base_pos:
  fixes L S k :: real
  assumes "3 * \<bar>L * S\<bar> < 1" "\<bar>k\<bar> \<le> 3"
  shows "0 < 1 + L * S * k"
proof -
  have "\<bar>L * S * k\<bar> = \<bar>L * S\<bar> * \<bar>k\<bar>" by (simp add: abs_mult)
  also have "\<dots> \<le> \<bar>L * S\<bar> * 3" using assms(2) by (intro mult_left_mono) simp_all
  finally have "\<bar>L * S * k\<bar> < 1" using assms(1) by linarith
  then show ?thesis by linarith
qed

lemma sd_py_real:
  assumes "L \<noteq> 0" "0 < 1 + L * S * k"
  shows "sd_py L M S k = Inr (PyFloat (sd_cutoff L M S k))"
  using assms by (simp add: sd_py_def py_pow_def pbind_def sd_cutoff_def)

text \<open>The cutoff at \<open>k\<close> standard deviations is the measurement whose z-score is \<open>k\<close>.\<close>

lemma lms_formula_sd_cutoff:
  assumes "0 < M" "S \<noteq> 0" "0 < 1 + L * S * k"
  shows "lms_formula L M S (sd_cutoff L M S k) = k"
proof (cases "L = 0")
  case True
  then show ?thesis using assms by (simp add: lms_formula_def sd_cutoff_def)
next
  case False
  have "((1 + L * S * k) powr (1 / L)) powr L = 1 + L * S * k"
    using False assms(3) by (simp add: powr_powr)
  then show ?thesis using False assms by (simp add: lms_formula_def sd_cutoff_def)
qed

lemma sd_cutoff_distinct:
  assumes "0 < M" "S \<noteq> 0" "0 < 1 + L * S * j" "0 < 1 + L * S * k" "j \<noteq> k"
  shows "sd_cutoff L M S j \<noteq> sd_cutoff L M S k"
proof
  assume "sd_cutoff L M S j = sd_cutoff L M S k"
  then have "lms_formula L M S (sd_cutoff L M S j) = lms_formula L M S (sd_cutoff L M S k)"
    by simp
  then show False using assms by (simp add: lms_formula_sd_cutoff)
qed


lemma restricted_py_real:
  assumes "0 < M" "S \<noteq> 0" "L \<noteq> 0" "3 * \<bar>L * S\<bar> < 1"
  shows "restricted_py L M S X (PyFloat z) =
     Inr (PyFloat
       (if 3 < z then
          3 + (X - sd_cutoff L M S 3) / (sd_cutoff L M S 3 - sd_cutoff L M S 2)
        else if z < - 3 then
          - 3 + (X - sd_cutoff L M S (- 3)) / (sd_cutoff L M S (- 2) - sd_cutoff L M S (- 3))
        else z))"
proof -
  have b: "0 < 1 + L * S * 3" "0 < 1 + L * S * (- 3)" "0 < 1 + L * S * 2" "0 < 1 + L * S * (- 2)"
    using base_pos [OF assms(4), of 3] base_pos [OF assms(4), of "- 3"]
      base_pos [OF assms(4), of 2] base_pos [OF assms(4), of "- 2"] by simp_all
  note sd = sd_py_real [OF assms(3) b(1), of M] sd_py_real [OF assms(3) b(2), of M]
    sd_py_real [OF assms(3) b(3), of M] sd_py_real [OF assms(3) b(4), of M]
  have d: "sd_cutoff L M S 3 \<noteq> sd_cutoff L M S 2"
    "sd_cutoff L M S (- 2) \<noteq> sd_cutoff L M S (- 3)"
    using sd_cutoff_distinct [OF assms(1,2) b(1) b(3)] sd_cutoff_distinct [OF assms(1,2) b(4) b(2)]
    by simp_all
  show ?thesis
    unfolding restricted_py_def sd using d by (simp add: pbind_def Let_def)
qed

lemma restricted_np_real:
  assumes "0 < M" "S \<noteq> 0"
  shows "restricted_np M S X (Fin z) =
     Fin
       (if 3 < z then
          3 + (X - sd_cutoff 0 M S 3) / (sd_cutoff 0 M S 3 - sd_cutoff 0 M S 2)
        else if z < - 3 then
          - 3 + (X - sd_cutoff 0 M S (- 3)) / (sd_cutoff 0 M S (- 2) - sd_cutoff 0 M S (- 3))
        else z)"
proof -
  have d: "sd_cutoff 0 M S 3 \<noteq> sd_cutoff 0 M S 2"
    "sd_cutoff 0 M S (- 2) \<noteq> sd_cutoff 0 M S (- 3)"
    using sd_cutoff_distinct [OF assms, of 0 3 2] sd_cutoff_distinct [OF assms, of 0 "- 2" "- 3"]
    by simp_all
  then show ?thesis
    by (simp add: restricted_np_def Let_def sd_cutoff_def)
qed

lemma zscore_py_closed:
  assumes "0 < X" "0 < M" "S \<noteq> 0" "L \<noteq> 0" "3 * \<bar>L * S\<bar> < 1"
  shows "zscore_py L M S X indicator = Inr (Fin (round2 (who_z indicator L M S X)))"
proof -
  have "\<not> 3 < z \<Longrightarrow> 3 < \<bar>z\<bar> \<Longrightarrow> z < - 3" for z :: real by linarith
  then show ?thesis using assms
    by (simp add: zscore_py_raw restricted_py_real who_z_def pbind_def Let_def)
qed

lemma zscore_np_closed:
  assumes "0 < X" "0 < M" "S \<noteq> 0"
  shows "zscore_np M S X indicator = Inr (Fin (round2 (who_z indicator 0 M S X)))"
proof -
  have "\<not> 3 < z \<Longrightarrow> 3 < \<bar>z\<bar> \<Longrightarrow> z < - 3" for z :: real by linarith
  then show ?thesis using assms
    by (simp add: zscore_np_raw restricted_np_real who_z_def Let_def)
qed

text \<open>
  On a row with a positive median, a nonzero \<open>S\<close> and \<open>3\<bar>LS\<bar> < 1\<close> (the cutoffs at
  two and three standard deviations exist), the call returns the rounded closed form.
\<close>

lemma calc_closed_form:
  assumes "0 < X" "lookup_lms bfa hfa s a indicator = Some (L, M, S)"
    "0 < M" "S \<noteq> 0" "3 * \<bar>L * S\<bar> < 1"
  shows "calc_who_zscore bfa hfa (Some X) (Some a) (Some s) indicator =
     Inr (Fin (round2 (who_z indicator L M S X)))"
  using assms by (simp add: zscore_py_closed zscore_np_closed)

text \<open>Where the restricted approach does not apply, the cutoffs are not needed.\<close>

lemma calc_plain:
  assumes "0 < X" "lookup_lms bfa hfa s a indicator = Some (L, M, S)"
    "0 < M" "S \<noteq> 0" "indicator \<noteq> ''bfa'' \<or> \<bar>lms_formula L M S X\<bar> \<le> 3"
  shows "calc_who_zscore bfa hfa (Some X) (Some a) (Some s) indicator =
     Inr (Fin (round2 (lms_formula L M S X)))"
proof (cases "L = 0")
  case True
  then show ?thesis using assms by (auto simp: zscore_np_raw)
next
  case False
  then show ?thesis using assms by (auto simp: zscore_py_raw pbind_def)
qed



lemma lms_formula_median:
  assumes "0 < M"
  shows "lms_formula L M S M = 0"
  using assms by (simp add: lms_formula_def)

text \<open>A zero median, or a zero \<open>S\<close> with \<open>L \<noteq> 0\<close>, is a division by zero.\<close>

lemma calc_zero_division:
  assumes "0 < X" "lookup_lms bfa hfa s a indicator = Some (L, M, S)"
    "M = 0 \<or> S = 0 \<and> L \<noteq> 0"
  shows "calc_who_zscore bfa hfa (Some X) (Some a) (Some s) indicator = Inl ZeroDivisionError"
proof (cases "M = 0")
  case True
  then show ?thesis using assms(1,2)
    by (simp add: zscore_py_def zscore_np_def py_truediv_def pbind_def)
next
  case False
  then have S: "S = 0" and L: "L \<noteq> 0" using assms(3) by simp_all
  have "X / M \<noteq> 0" using False assms(1) by simp
  then have "\<exists>p. py_pow (X / M) L = Inr p" by (simp add: py_pow_def)
  then obtain p where p: "py_pow (X / M) L = Inr p" ..
  have "pynum_truediv (pynum_sub p (PyFloat 1)) (PyFloat 0) = Inl ZeroDivisionError"
    by (cases p) simp_all
  then show ?thesis using assms(1,2) False S L p
    by (simp add: zscore_py_def py_truediv_def pbind_def)
qed

subsection \<open>Monotonicity of the closed form\<close>




section \<open>The claims\<close>





text \<open>
  C3. Whenever measurement, age or sex is missing, or the measurement is not positive,
  \<open>calc_who_zscore\<close> returns the sentinel \<open>NaN\<close>. The checks come before the lookup and
  the arithmetic: the result is the same for every pair of tables and every indicator,
  and it is a returned value, not an exception.
\<close>

theorem invalid_input_undefined:
  assumes "m = None \<or> a = None \<or> s = None \<or> (\<exists>x. m = Some x \<and> x \<le> 0)"
  shows "calc_who_zscore bfa hfa m a s indicator = Inr NaN"
  using assms by (auto simp: calc_missing calc_nonpositive)

theorem invalid_input_undefined_witness:
  "calc_who_zscore malformed_example hfa_example (Some 0) (Some 100) (Some 1) ''bfa'' = Inr NaN
   \<and> calc_who_zscore malformed_example hfa_example (Some (- 5)) (Some 100) (Some 1) ''bfa''
       = Inr NaN
   \<and> calc_who_zscore malformed_example hfa_example (Some 20) None (Some 1) ''bfa'' = Inr NaN
   \<and> calc_who_zscore malformed_example hfa_example None (Some 100) (Some 1) ''bfa'' = Inr NaN
   \<and> calc_who_zscore malformed_example hfa_example (Some 20) (Some 100) None ''bfa'' = Inr NaN"
  using invalid_input_undefined [of "Some 0" "Some 100" "Some 1" malformed_example hfa_example "''bfa''"]
    invalid_input_undefined [of "Some (- 5)" "Some 100" "Some 1" malformed_example hfa_example "''bfa''"]
    invalid_input_undefined [of "Some 20" None "Some 1" malformed_example hfa_example "''bfa''"]
    invalid_input_undefined [of None "Some 100" "Some 1" malformed_example hfa_example "''bfa''"]
    invalid_input_undefined [of "Some 20" "Some 100" None malformed_example hfa_example "''bfa''"]
  by simp

text \<open>
  C4. An age whose rounded value is below 61 or above 228 months is not found by the
  lookup, and \<open>calc_who_zscore\<close> returns \<open>NaN\<close>. An age that rounds to 61 or to 228, with
  a valid sex, a positive measurement and a matching well-formed row, gives a finite
  z-score.
\<close>

theorem age_window:
  "(py_round a < 61 \<or> 228 < py_round a \<longrightarrow>
      lookup_lms bfa hfa s a indicator = None
      \<and> calc_who_zscore bfa hfa m (Some a) sx indicator = Inr NaN)
   \<and> ((py_round a = 61 \<or> py_round a = 228) \<and> (py_int s = 1 \<or> py_int s = 2) \<and> 0 < X
        \<and> (if indicator = ''bfa'' then bfa else hfa) (py_int s, py_round a) = Some (L, M, S)
        \<and> 0 < M \<and> S \<noteq> 0 \<and> 3 * \<bar>L * S\<bar> < 1 \<longrightarrow>
      (\<exists>z. calc_who_zscore bfa hfa (Some X) (Some a) (Some s) indicator = Inr (Fin z)))"
proof (intro conjI impI)
  assume out: "py_round a < 61 \<or> 228 < py_round a"
  then show "lookup_lms bfa hfa s a indicator = None" by (rule lookup_out_of_window)
  show "calc_who_zscore bfa hfa m (Some a) sx indicator = Inr NaN"
    using out by (intro calc_lookup_failed lookup_out_of_window)
next
  assume h: "(py_round a = 61 \<or> py_round a = 228) \<and> (py_int s = 1 \<or> py_int s = 2) \<and> 0 < X
      \<and> (if indicator = ''bfa'' then bfa else hfa) (py_int s, py_round a) = Some (L, M, S)
      \<and> 0 < M \<and> S \<noteq> 0 \<and> 3 * \<bar>L * S\<bar> < 1"
  then have "61 \<le> py_round a" "py_round a \<le> 228" by auto
  then have "lookup_lms bfa hfa s a indicator = Some (L, M, S)"
    using h by (simp add: lookup_in_window)
  then have "calc_who_zscore bfa hfa (Some X) (Some a) (Some s) indicator =
      Inr (Fin (round2 (who_z indicator L M S X)))"
    using h by (intro calc_closed_form) simp_all
  then show "\<exists>z. calc_who_zscore bfa hfa (Some X) (Some a) (Some s) indicator = Inr (Fin z)"
    by blast
qed

theorem age_window_witness:
  "py_round 60 = 60 \<and> py_round 229 = 229 \<and> py_round 61 = 61 \<and> py_round 228 = 228
   \<and> lookup_lms bfa_example hfa_example 1 60 ''hfa'' = None
   \<and> calc_who_zscore bfa_example hfa_example (Some 110) (Some 60) (Some 1) ''hfa'' = Inr NaN
   \<and> lookup_lms bfa_example hfa_example 2 229 ''hfa'' = None
   \<and> calc_who_zscore bfa_example hfa_example (Some 160) (Some 229) (Some 2) ''hfa'' = Inr NaN
   \<and> (\<exists>z. calc_who_zscore bfa_example hfa_example (Some 110) (Some 61) (Some 1) ''hfa''
           = Inr (Fin z))
   \<and> (\<exists>z. calc_who_zscore bfa_example hfa_example (Some 160) (Some 228) (Some 2) ''hfa''
           = Inr (Fin z))"
  using age_window [where a = 60 and bfa = bfa_example and hfa = hfa_example and s = 1
      and indicator = "''hfa''" and m = "Some 110" and sx = "Some 1"]
    age_window [where a = 229 and bfa = bfa_example and hfa = hfa_example and s = 2
      and indicator = "''hfa''" and m = "Some 160" and sx = "Some 2"]
    age_window [where a = 61 and bfa = bfa_example and hfa = hfa_example and s = 1
      and indicator = "''hfa''" and X = 110 and L = 1 and M = 110 and S = "1 / 25"]
    age_window [where a = 228 and bfa = bfa_example and hfa = hfa_example and s = 2
      and indicator = "''hfa''" and X = 160 and L = 1 and M = 163 and S = "1 / 25"]
  by (simp add: py_round_numeral py_int_def hfa_example_def)

text \<open>
  C5. The sex is a whole-number code. For every code other than 1 and 2 the lookup
  finds nothing and \<open>calc_who_zscore\<close> returns \<open>NaN\<close>, and so does the call with a missing
  sex (which returns before the lookup); a call that returns a number was made with
  code 1 or code 2.
\<close>

theorem invalid_sex_undefined:
  "(n \<noteq> 1 \<and> n \<noteq> 2 \<longrightarrow>
      lookup_lms bfa hfa (of_int n) a indicator = None
      \<and> calc_who_zscore bfa hfa m age (Some (of_int n)) indicator = Inr NaN)
   \<and> calc_who_zscore bfa hfa m age None indicator = Inr NaN
   \<and> (calc_who_zscore bfa hfa m age (Some (of_int n)) indicator = Inr (Fin z) \<longrightarrow>
        n = 1 \<or> n = 2)"
proof -
  have bad: "lookup_lms bfa hfa (of_int n) a indicator = None
      \<and> calc_who_zscore bfa hfa m age (Some (of_int n)) indicator = Inr NaN"
    if "n \<noteq> 1 \<and> n \<noteq> 2"
    using that by (simp add: lookup_bad_sex calc_bad_sex py_int_of_int)
  have missing: "calc_who_zscore bfa hfa m age None indicator = Inr NaN"
    by (simp add: calc_missing)
  have only: "n = 1 \<or> n = 2"
    if r: "calc_who_zscore bfa hfa m age (Some (of_int n)) indicator = Inr (Fin z)"
  proof (rule ccontr)
    assume "\<not> (n = 1 \<or> n = 2)"
    then have "calc_who_zscore bfa hfa m age (Some (of_int n)) indicator = Inr NaN"
      using bad by simp
    then show False using r by simp
  qed
  show ?thesis using bad missing only by blast
qed

theorem invalid_sex_undefined_witness:
  "lookup_lms bfa_example hfa_example (of_int 3) 100 ''hfa'' = None
   \<and> calc_who_zscore bfa_example hfa_example (Some 128) (Some 100) (Some (of_int 3)) ''hfa''
       = Inr NaN
   \<and> calc_who_zscore bfa_example hfa_example (Some 128) (Some 100) (Some (of_int 0)) ''hfa''
       = Inr NaN
   \<and> calc_who_zscore bfa_example hfa_example (Some 128) (Some 100) (Some (of_int (- 1))) ''hfa''
       = Inr NaN
   \<and> calc_who_zscore bfa_example hfa_example (Some 128) (Some 100) None ''hfa'' = Inr NaN
   \<and> calc_who_zscore bfa_example hfa_example (Some 128) (Some 100) (Some (of_int 1)) ''hfa''
       = Inr (Fin 0)
   \<and> calc_who_zscore bfa_example hfa_example (Some 163) (Some 228) (Some (of_int 2)) ''hfa''
       = Inr (Fin 0)"
  using invalid_sex_undefined [where n = 3 and bfa = bfa_example and hfa = hfa_example
      and a = 100 and indicator = "''hfa''" and m = "Some 128" and age = "Some 100"]
    invalid_sex_undefined [where n = 0 and bfa = bfa_example and hfa = hfa_example
      and indicator = "''hfa''" and m = "Some 128" and age = "Some 100"]
    invalid_sex_undefined [where n = "- 1" and bfa = bfa_example and hfa = hfa_example
      and indicator = "''hfa''" and m = "Some 128" and age = "Some 100"]
  by (simp add: lookup_lms_def hfa_example_def py_int_def py_round_numeral zscore_py_def
      py_truediv_def py_pow_def pbind_def round2_def py_round_def)

text \<open>
  C6, as stated: a row whose \<open>M\<close> or \<open>S\<close> is zero or negative makes the lookup fail, so
  that the call returns \<open>NaN\<close> and no arithmetic error can happen. The lookup has no
  such guard: the row with the median 0 is found, and the division \<^verbatim>\<open>X / M\<close> raises.
\<close>

theorem malformed_row_not_guarded:
  "lookup_lms malformed_example hfa_example 1 100 ''bfa'' = Some (1, 0, 1 / 10)
   \<and> calc_who_zscore malformed_example hfa_example (Some 20) (Some 100) (Some 1) ''bfa''
       = Inl ZeroDivisionError"
  by (simp add: lookup_lms_def malformed_example_def py_int_def py_round_numeral zscore_py_def
      py_truediv_def pbind_def)

text \<open>
  C6, amended. The lookup returns the row of the table as it is stored, whatever the
  signs of \<open>M\<close> and \<open>S\<close>, and the LMS formula is evaluated on it. With a positive
  measurement, a row whose \<open>M\<close> is zero, or whose \<open>S\<close> is zero while \<open>L\<close> is not, makes
  the call raise \<^verbatim>\<open>ZeroDivisionError\<close>.
\<close>

theorem lookup_has_no_guard:
  "(61 \<le> py_round a \<and> py_round a \<le> 228 \<and> (py_int s = 1 \<or> py_int s = 2) \<longrightarrow>
      lookup_lms bfa hfa s a indicator =
        (if indicator = ''bfa'' then bfa else hfa) (py_int s, py_round a))
   \<and> (0 < X \<and> lookup_lms bfa hfa s a indicator = Some (L, M, S)
        \<and> (M = 0 \<or> S = 0 \<and> L \<noteq> 0) \<longrightarrow>
      calc_who_zscore bfa hfa (Some X) (Some a) (Some s) indicator = Inl ZeroDivisionError)"
proof (intro conjI impI)
  assume "61 \<le> py_round a \<and> py_round a \<le> 228 \<and> (py_int s = 1 \<or> py_int s = 2)"
  then show "lookup_lms bfa hfa s a indicator =
      (if indicator = ''bfa'' then bfa else hfa) (py_int s, py_round a)"
    by (intro lookup_in_window) simp_all
next
  assume h: "0 < X \<and> lookup_lms bfa hfa s a indicator = Some (L, M, S)
      \<and> (M = 0 \<or> S = 0 \<and> L \<noteq> 0)"
  show "calc_who_zscore bfa hfa (Some X) (Some a) (Some s) indicator = Inl ZeroDivisionError"
    by (rule calc_zero_division [of X bfa hfa s a indicator L M S]) (use h in simp_all)
qed

theorem lookup_has_no_guard_witness:
  "py_round 100 = 100 \<and> py_int 1 = 1
   \<and> lookup_lms malformed_example hfa_example 1 100 ''bfa'' = malformed_example (1, 100)
   \<and> malformed_example (1, 100) = Some (1, 0, 1 / 10)
   \<and> calc_who_zscore malformed_example hfa_example (Some 18) (Some 100) (Some 1) ''bfa''
       = Inl ZeroDivisionError"
  using lookup_has_no_guard [where a = 100 and s = 1 and bfa = malformed_example
      and hfa = hfa_example and indicator = "''bfa''" and X = 18 and L = 1 and M = 0
      and S = "1 / 10"]
  by (simp add: py_round_numeral py_int_def malformed_example_def)




text \<open>
  C8. For a sex, age and indicator whose lookup succeeds with the median \<open>M\<close>, the call
  with the measurement \<open>M\<close> returns exactly 0. The median of a row is positive and its
  \<open>S\<close> is not zero.
\<close>

theorem median_gives_zero:
  assumes "lookup_lms bfa hfa s a indicator = Some (L, M, S)"
    and "0 < M" and "S \<noteq> 0"
  shows "calc_who_zscore bfa hfa (Some M) (Some a) (Some s) indicator = Inr (Fin 0)"
proof -
  have z: "lms_formula L M S M = 0" using assms(2) by (rule lms_formula_median)
  have "calc_who_zscore bfa hfa (Some M) (Some a) (Some s) indicator =
      Inr (Fin (round2 (lms_formula L M S M)))"
    using assms(2,1,2,3) by (rule calc_plain) (simp add: z)
  then show ?thesis by (simp add: z round2_zero)
qed

theorem median_gives_zero_witness:
  "lookup_lms bfa_example hfa_example 1 100 ''bfa'' = Some (- 1, 16, 1 / 10)
   \<and> calc_who_zscore bfa_example hfa_example (Some 16) (Some 100) (Some 1) ''bfa''
       = Inr (Fin 0)
   \<and> lookup_lms bfa_example hfa_example 2 228 ''hfa'' = Some (1, 163, 1 / 25)
   \<and> calc_who_zscore bfa_example hfa_example (Some 163) (Some 228) (Some 2) ''hfa''
       = Inr (Fin 0)"
  using median_gives_zero [where bfa = bfa_example and hfa = hfa_example and s = 1 and a = 100
      and indicator = "''bfa''" and L = "- 1" and M = 16 and S = "1 / 10"]
    median_gives_zero [where bfa = bfa_example and hfa = hfa_example and s = 2 and a = 228
      and indicator = "''hfa''" and L = 1 and M = 163 and S = "1 / 25"]
  by (simp add: lookup_lms_def bfa_example_def hfa_example_def py_int_def py_round_numeral)

text \<open>
  C9. An indicator other than the string \<^verbatim>\<open>'bfa'\<close>, known or not, is handled exactly
  as \<^verbatim>\<open>'hfa'\<close>: the lookup reads the height-for-age table, the BMI-for-age table has no
  influence on the result, nothing is rejected, and the extreme-value correction is
  never applied, whatever the size of the raw z-score.
\<close>

theorem unknown_indicator_is_hfa:
  assumes "indicator \<noteq> ''bfa''"
  shows "lookup_lms bfa hfa s a indicator = lookup_lms bfa' hfa s a ''hfa''
     \<and> calc_who_zscore bfa hfa m age sex indicator = calc_who_zscore bfa' hfa m age sex ''hfa''
     \<and> (0 < X \<and> lookup_lms bfa hfa s a indicator = Some (L, M, S) \<and> 0 < M \<and> S \<noteq> 0 \<longrightarrow>
          calc_who_zscore bfa hfa (Some X) (Some a) (Some s) indicator =
            Inr (Fin (round2 (lms_formula L M S X))))"
proof (intro conjI impI)
  show look: "lookup_lms bfa hfa t b indicator = lookup_lms bfa' hfa t b ''hfa''" for t b
    using assms by (rule lookup_not_bfa)
  have zp: "zscore_py L' M' S' X' indicator = zscore_py L' M' S' X' ''hfa''" for L' M' S' X'
    using assms by (simp add: zscore_py_def)
  have zn: "zscore_np M' S' X' indicator = zscore_np M' S' X' ''hfa''" for M' S' X'
    using assms by (simp add: zscore_np_def)
  show "calc_who_zscore bfa hfa m age sex indicator = calc_who_zscore bfa' hfa m age sex ''hfa''"
    by (cases m; cases age; cases sex) (simp_all add: look zp zn split: option.split)
next
  assume h: "0 < X \<and> lookup_lms bfa hfa s a indicator = Some (L, M, S) \<and> 0 < M \<and> S \<noteq> 0"
  show "calc_who_zscore bfa hfa (Some X) (Some a) (Some s) indicator =
      Inr (Fin (round2 (lms_formula L M S X)))"
    by (rule calc_plain) (use h assms in simp_all)
qed

theorem unknown_indicator_is_hfa_witness:
  "lookup_lms bfa_example hfa_example 1 100 ''wfa'' = Some (1, 128, 1 / 20)
   \<and> lookup_lms malformed_example hfa_example 1 100 ''hfa'' = Some (1, 128, 1 / 20)
   \<and> calc_who_zscore bfa_example hfa_example (Some 64) (Some 100) (Some 1) ''wfa''
       = calc_who_zscore malformed_example hfa_example (Some 64) (Some 100) (Some 1) ''hfa''
   \<and> lms_formula 1 128 (1 / 20) 64 = - 10
   \<and> calc_who_zscore bfa_example hfa_example (Some 64) (Some 100) (Some 1) ''wfa''
       = Inr (Fin (- 10))"
  using unknown_indicator_is_hfa [where indicator = "''wfa''" and bfa = bfa_example
      and bfa' = malformed_example and hfa = hfa_example and s = 1 and a = 100
      and m = "Some 64" and age = "Some 100" and sex = "Some 1" and X = 64
      and L = 1 and M = 128 and S = "1 / 20"]
  by (auto simp: lookup_lms_def hfa_example_def py_int_def py_round_numeral lms_formula_def
      round2_def py_round_def)

text \<open>
  C10. The lookup rounds the age to the nearest integer and breaks a tie toward the
  even neighbour, as \<^verbatim>\<open>round\<close> does, not away from zero: an age less than half a month
  from the whole number \<open>n\<close> is looked up as \<open>n\<close>, the age \<open>n + 1/2\<close> is looked up as the
  even one of \<open>n\<close> and \<open>n + 1\<close>, and a whole number \<open>n\<close> is looked up under the key
  \<open>(sex, n)\<close> inside the window. At the edges of the window, 228.5 is looked up as 228
  and gives a finite z-score on a well-formed row, and 60.5 is looked up as 60 and
  gives \<open>NaN\<close>.
\<close>

theorem age_rounds_half_even:
  "(\<bar>a - of_int n\<bar> < 1 / 2 \<longrightarrow>
      lookup_lms bfa hfa s a indicator = lookup_lms bfa hfa s (of_int n) indicator
      \<and> calc_who_zscore bfa hfa m (Some a) sx indicator =
          calc_who_zscore bfa hfa m (Some (of_int n)) sx indicator)
   \<and> (a = of_int n + 1 / 2 \<longrightarrow>
      lookup_lms bfa hfa s a indicator =
        lookup_lms bfa hfa s (of_int (if even n then n else n + 1)) indicator
      \<and> calc_who_zscore bfa hfa m (Some a) sx indicator =
          calc_who_zscore bfa hfa m (Some (of_int (if even n then n else n + 1))) sx indicator)
   \<and> lookup_lms bfa hfa s (of_int n) indicator =
       (if n < 61 \<or> 228 < n \<or> (py_int s \<noteq> 1 \<and> py_int s \<noteq> 2) then None
        else (if indicator = ''bfa'' then bfa else hfa) (py_int s, n))
   \<and> py_round (of_int n + 1 / 2) = (if even n then n else n + 1)
   \<and> py_round (457 / 2) = 228 \<and> py_round (121 / 2) = 60
   \<and> lookup_lms bfa hfa s (457 / 2) indicator = lookup_lms bfa hfa s 228 indicator
   \<and> calc_who_zscore bfa hfa m (Some (457 / 2)) sx indicator =
       calc_who_zscore bfa hfa m (Some 228) sx indicator
   \<and> ((py_int s = 1 \<or> py_int s = 2) \<and> 0 < X
        \<and> (if indicator = ''bfa'' then bfa else hfa) (py_int s, 228) = Some (L, M, S)
        \<and> 0 < M \<and> S \<noteq> 0 \<and> 3 * \<bar>L * S\<bar> < 1 \<longrightarrow>
      (\<exists>z. calc_who_zscore bfa hfa (Some X) (Some (457 / 2)) (Some s) indicator = Inr (Fin z)))
   \<and> lookup_lms bfa hfa s (121 / 2) indicator = None
   \<and> calc_who_zscore bfa hfa m (Some (121 / 2)) sx indicator = Inr NaN"
proof -
  have near: "lookup_lms bfa hfa s a indicator = lookup_lms bfa hfa s (of_int n) indicator
      \<and> calc_who_zscore bfa hfa m (Some a) sx indicator =
          calc_who_zscore bfa hfa m (Some (of_int n)) sx indicator"
    if "\<bar>a - of_int n\<bar> < 1 / 2"
  proof -
    have eq: "py_round a = py_round (of_int n)"
      using that by (simp add: py_round_nearest py_round_of_int)
    show ?thesis
      by (intro conjI lookup_same_round [OF eq] calc_same_round [OF eq])
  qed
  have tie: "lookup_lms bfa hfa s a indicator =
        lookup_lms bfa hfa s (of_int (if even n then n else n + 1)) indicator
      \<and> calc_who_zscore bfa hfa m (Some a) sx indicator =
          calc_who_zscore bfa hfa m (Some (of_int (if even n then n else n + 1))) sx indicator"
    if "a = of_int n + 1 / 2"
  proof -
    have eq: "py_round a = py_round (of_int (if even n then n else n + 1))"
      unfolding that py_round_half py_round_of_int ..
    show ?thesis
      by (intro conjI lookup_same_round [OF eq] calc_same_round [OF eq])
  qed
  have hi: "py_round (457 / 2) = 228" and lo: "py_round (121 / 2) = 60"
    by (simp_all add: py_round_def)
  have same: "py_round (457 / 2) = py_round 228"
    by (simp add: hi py_round_numeral)
  have out: "lookup_lms bfa hfa t (121 / 2) indicator = None" for t
    by (rule lookup_out_of_window) (simp add: lo)
  have defined: "\<exists>z. calc_who_zscore bfa hfa (Some X) (Some (457 / 2)) (Some s) indicator
      = Inr (Fin z)"
    if h: "(py_int s = 1 \<or> py_int s = 2) \<and> 0 < X
        \<and> (if indicator = ''bfa'' then bfa else hfa) (py_int s, 228) = Some (L, M, S)
        \<and> 0 < M \<and> S \<noteq> 0 \<and> 3 * \<bar>L * S\<bar> < 1"
  proof -
    have "lookup_lms bfa hfa s (457 / 2) indicator = Some (L, M, S)"
      using h by (simp add: lookup_in_window hi)
    then have "calc_who_zscore bfa hfa (Some X) (Some (457 / 2)) (Some s) indicator =
        Inr (Fin (round2 (who_z indicator L M S X)))"
      using h by (intro calc_closed_form) simp_all
    then show ?thesis by blast
  qed
  have at_int: "lookup_lms bfa hfa s (of_int n) indicator =
       (if n < 61 \<or> 228 < n \<or> (py_int s \<noteq> 1 \<and> py_int s \<noteq> 2) then None
        else (if indicator = ''bfa'' then bfa else hfa) (py_int s, n))"
    by (rule lookup_at_int)
  have half: "py_round (of_int n + 1 / 2) = (if even n then n else n + 1)"
    by (rule py_round_half)
  have l228: "lookup_lms bfa hfa s (457 / 2) indicator = lookup_lms bfa hfa s 228 indicator"
    by (rule lookup_same_round [OF same])
  have c228: "calc_who_zscore bfa hfa m (Some (457 / 2)) sx indicator =
       calc_who_zscore bfa hfa m (Some 228) sx indicator"
    by (rule calc_same_round [OF same])
  have c60: "calc_who_zscore bfa hfa m (Some (121 / 2)) sx indicator = Inr NaN"
    by (rule calc_lookup_failed [OF out])
  show ?thesis
    apply (intro conjI)
    subgoal using near by blast
    subgoal using tie by blast
    subgoal by (rule at_int)
    subgoal by (rule half)
    subgoal by (rule hi)
    subgoal by (rule lo)
    subgoal by (rule l228)
    subgoal by (rule c228)
    subgoal using defined by blast
    subgoal by (rule out)
    subgoal by (rule c60)
    done
qed

theorem age_rounds_half_even_witness:
  "lookup_lms bfa_example hfa_example 1 (997 / 10) ''hfa'' = Some (1, 128, 1 / 20)
   \<and> lookup_lms bfa_example hfa_example 1 (1004 / 10) ''hfa'' = Some (1, 128, 1 / 20)
   \<and> lookup_lms bfa_example hfa_example 1 (199 / 2) ''hfa'' = Some (1, 128, 1 / 20)
   \<and> lookup_lms bfa_example hfa_example 1 (201 / 2) ''hfa'' = Some (1, 128, 1 / 20)
   \<and> lookup_lms bfa_example hfa_example 2 (457 / 2) ''hfa'' = Some (1, 163, 1 / 25)
   \<and> (\<exists>z. calc_who_zscore bfa_example hfa_example (Some 160) (Some (457 / 2)) (Some 2) ''hfa''
           = Inr (Fin z))
   \<and> lookup_lms bfa_example hfa_example 1 (121 / 2) ''hfa'' = None
   \<and> calc_who_zscore bfa_example hfa_example (Some 110) (Some (121 / 2)) (Some 1) ''hfa''
       = Inr NaN"
proof -
  let ?look = "lookup_lms bfa_example hfa_example"
  note inst = age_rounds_half_even [where bfa = bfa_example and hfa = hfa_example
      and indicator = "''hfa''" and m = "Some 110" and sx = "Some 1" and X = 160
      and L = 1 and M = 163 and S = "1 / 25"]
  have row100: "?look 1 (of_int 100) ''hfa'' = Some (1, 128, 1 / 20)"
    using inst [where a = 0 and n = 100 and s = 1, THEN conjunct2, THEN conjunct2, THEN conjunct1]
    by (simp add: hfa_example_def py_int_def)
  have row228: "?look 2 (of_int 228) ''hfa'' = Some (1, 163, 1 / 25)"
    using inst [where a = 0 and n = 228 and s = 2, THEN conjunct2, THEN conjunct2, THEN conjunct1]
    by (simp add: hfa_example_def py_int_def)
  have a1: "?look 1 (997 / 10) ''hfa'' = ?look 1 (of_int 100) ''hfa''"
    using inst [where a = "997 / 10" and n = 100 and s = 1, THEN conjunct1] by simp
  have a2: "?look 1 (1004 / 10) ''hfa'' = ?look 1 (of_int 100) ''hfa''"
    using inst [where a = "1004 / 10" and n = 100 and s = 1, THEN conjunct1] by simp
  have a3: "?look 1 (199 / 2) ''hfa'' = ?look 1 (of_int 100) ''hfa''"
    using inst [where a = "199 / 2" and n = 99 and s = 1, THEN conjunct2, THEN conjunct1]
    by simp
  have a4: "?look 1 (201 / 2) ''hfa'' = ?look 1 (of_int 100) ''hfa''"
    using inst [where a = "201 / 2" and n = 100 and s = 1, THEN conjunct2, THEN conjunct1]
    by simp
  have a5: "?look 2 (457 / 2) ''hfa'' = ?look 2 (of_int 228) ''hfa''"
    using inst [where a = "457 / 2" and n = 228 and s = 2, THEN conjunct2, THEN conjunct1]
    by simp
  have rest: "(\<exists>z. calc_who_zscore bfa_example hfa_example (Some 160) (Some (457 / 2)) (Some 2)
        ''hfa'' = Inr (Fin z))
      \<and> ?look 1 (121 / 2) ''hfa'' = None
      \<and> calc_who_zscore bfa_example hfa_example (Some 110) (Some (121 / 2)) (Some 1) ''hfa''
          = Inr NaN"
    using inst [where a = 0 and n = 0 and s = 2, THEN conjunct2, THEN conjunct2, THEN conjunct2,
        THEN conjunct2, THEN conjunct2, THEN conjunct2, THEN conjunct2, THEN conjunct2]
      inst [where a = 0 and n = 0 and s = 1, THEN conjunct2, THEN conjunct2, THEN conjunct2,
        THEN conjunct2, THEN conjunct2, THEN conjunct2, THEN conjunct2, THEN conjunct2,
        THEN conjunct2]
    by (simp add: hfa_example_def py_int_def)
  show ?thesis
    using rest by (simp only: a1 a2 a3 a4 a5 row100 row228)
qed

end
